theory Spec2Isabelle
  imports Main
begin

section \<open>Rasters and the map-algebra operators of the engine\<close>

text \<open>
  The script \<^verbatim>\<open>CAFI_classification_cleanup.py\<close> builds every layer by calling the
  map-algebra operators of the Earth Engine client (\<^verbatim>\<open>eq\<close>, \<^verbatim>\<open>And\<close>, \<^verbatim>\<open>where\<close>,
  \<^verbatim>\<open>remap\<close>, \<^verbatim>\<open>unmask\<close>, \<^verbatim>\<open>clip\<close>, ...). A single-band image is a function from
  pixels to an optional value: \<open>None\<close> is a masked (no-data) pixel. The pixel type
  \<open>'p\<close> is left open; all operators but \<^verbatim>\<open>focal_max\<close> act pixel by pixel.
  A geometry (a clip region) is the set of pixels it covers, as a predicate.
\<close>

type_synonym 'p image = "'p \<Rightarrow> int option"
type_synonym 'p geometry = "'p \<Rightarrow> bool"

text \<open>
  Modelled from the spec: the operators themselves are library code of the engine and
  are not part of the source. The spec names them (section 9: \<open>remap\<close>,
  \<open>where(mask, value)\<close>, \<open>compare\<close>, \<open>booleanCombine\<close>, \<open>focalMax\<close>, \<open>clip\<close>,
  \<open>mosaic\<close>), says that an overwrite leaves the pixels outside its mask and outside the
  raster's valid extent untouched (section 3), that no-data propagates through the
  pixel-wise operations, and that \<open>unmask\<close> turns no-data into 0 (section 7). The
  definitions below follow that, with the engine's documented handling of masks:
  a binary operator is masked where either operand is; \<open>where\<close> keeps the input where
  the test or the value is masked and stays masked where the input is; \<open>remap\<close> masks
  a value that is not in its \<open>from\<close> list (no default value is passed anywhere in the
  script). A Python number used as an operand is the constant image of that number.
\<close>

definition ee_constant :: "int \<Rightarrow> 'p image" where
  "ee_constant c = (\<lambda>p. Some c)"

definition b2i :: "bool \<Rightarrow> int" where
  "b2i b = (if b then 1 else 0)"

definition binop :: "(int \<Rightarrow> int \<Rightarrow> int) \<Rightarrow> 'p image \<Rightarrow> 'p image \<Rightarrow> 'p image" where
  "binop f a b = (\<lambda>p. case a p of None \<Rightarrow> None
                         | Some x \<Rightarrow> (case b p of None \<Rightarrow> None | Some y \<Rightarrow> Some (f x y)))"

definition ee_eq :: "'p image \<Rightarrow> 'p image \<Rightarrow> 'p image" where
  "ee_eq = binop (\<lambda>x y. b2i (x = y))"

definition ee_neq :: "'p image \<Rightarrow> 'p image \<Rightarrow> 'p image" where
  "ee_neq = binop (\<lambda>x y. b2i (x \<noteq> y))"

definition ee_lt :: "'p image \<Rightarrow> 'p image \<Rightarrow> 'p image" where
  "ee_lt = binop (\<lambda>x y. b2i (x < y))"

definition ee_lte :: "'p image \<Rightarrow> 'p image \<Rightarrow> 'p image" where
  "ee_lte = binop (\<lambda>x y. b2i (x \<le> y))"

definition ee_gt :: "'p image \<Rightarrow> 'p image \<Rightarrow> 'p image" where
  "ee_gt = binop (\<lambda>x y. b2i (x > y))"

definition ee_gte :: "'p image \<Rightarrow> 'p image \<Rightarrow> 'p image" where
  "ee_gte = binop (\<lambda>x y. b2i (x \<ge> y))"

definition ee_And :: "'p image \<Rightarrow> 'p image \<Rightarrow> 'p image" where
  "ee_And = binop (\<lambda>x y. b2i (x \<noteq> 0 \<and> y \<noteq> 0))"

definition ee_Or :: "'p image \<Rightarrow> 'p image \<Rightarrow> 'p image" where
  "ee_Or = binop (\<lambda>x y. b2i (x \<noteq> 0 \<or> y \<noteq> 0))"

definition ee_add :: "'p image \<Rightarrow> 'p image \<Rightarrow> 'p image" where
  "ee_add = binop (\<lambda>x y. x + y)"

text \<open>A pixel is selected by a test or mask image when the image is valid and non-zero
  there.\<close>

definition selected :: "'p image \<Rightarrow> 'p \<Rightarrow> bool" where
  "selected test p = (case test p of None \<Rightarrow> False | Some t \<Rightarrow> t \<noteq> 0)"

text \<open>\<^verbatim>\<open>input.where(test, value)\<close>: the value where the test is non-zero, else the input.\<close>

definition ee_where :: "'p image \<Rightarrow> 'p image \<Rightarrow> 'p image \<Rightarrow> 'p image" where
  "ee_where input test val =
     (\<lambda>p. case input p of None \<Rightarrow> None
          | Some x \<Rightarrow>
              if selected test p then (case val p of None \<Rightarrow> Some x | Some y \<Rightarrow> Some y)
              else Some x)"

text \<open>\<^verbatim>\<open>img.remap(from, to)\<close>: two parallel lists; a value outside \<open>from\<close> is masked.\<close>

definition ee_remap :: "int list \<Rightarrow> int list \<Rightarrow> 'p image \<Rightarrow> 'p image" where
  "ee_remap fromCodes toCodes img =
     (\<lambda>p. case img p of None \<Rightarrow> None | Some v \<Rightarrow> map_of (zip fromCodes toCodes) v)"

text \<open>\<^verbatim>\<open>img.unmask()\<close>: a masked pixel becomes 0.\<close>

definition ee_unmask :: "'p image \<Rightarrow> 'p image" where
  "ee_unmask img = (\<lambda>p. case img p of None \<Rightarrow> Some 0 | Some v \<Rightarrow> Some v)"

text \<open>\<^verbatim>\<open>img.clip(geometry)\<close>: pixels outside the geometry are masked.\<close>

definition ee_clip :: "'p geometry \<Rightarrow> 'p image \<Rightarrow> 'p image" where
  "ee_clip g img = (\<lambda>p. if g p then img p else None)"

text \<open>\<^verbatim>\<open>img.updateMask(mask)\<close>: a pixel stays valid only where the mask image is
  valid and non-zero.\<close>

definition ee_updateMask :: "'p image \<Rightarrow> 'p image \<Rightarrow> 'p image" where
  "ee_updateMask img m =
     (\<lambda>p. case img p of None \<Rightarrow> None | Some v \<Rightarrow> if selected m p then Some v else None)"

text \<open>\<^verbatim>\<open>collection.mosaic()\<close>: at each pixel the last image of the collection that is
  valid there; masked where none is.\<close>

definition ee_mosaic :: "'p image list \<Rightarrow> 'p image" where
  "ee_mosaic imgs =
     (\<lambda>p. foldl (\<lambda>acc img. case img p of None \<Rightarrow> acc | Some v \<Rightarrow> Some v) None imgs)"

text \<open>\<^verbatim>\<open>img.focal_max(radius, 'square', 'meters')\<close>: the maximum over the valid pixels of
  the square kernel around a pixel; the kernel (which pixels lie within \<open>radius\<close> metres)
  is a property of the grid and is passed in.\<close>

definition ee_focal_max :: "(int \<Rightarrow> 'p \<Rightarrow> 'p list) \<Rightarrow> int \<Rightarrow> 'p image \<Rightarrow> 'p image" where
  "ee_focal_max kern radius img =
     (\<lambda>p. case List.map_filter img (kern radius p) of
             [] \<Rightarrow> None
           | v # vs \<Rightarrow> Some (fold max vs v))"

section \<open>The input assets\<close>

text \<open>
  The named assets the script loads (its cell \<^verbatim>\<open>In[5]\<close>), each already reduced to the
  band the script selects. \<open>water\<close> is the yearly collection; \<open>ESA_worldcover_first\<close>
  is the image \<^verbatim>\<open>ESA_worldcover.first()\<close>; \<open>aoi\<close> and \<open>lsib\<close> are the clip regions;
  \<open>annobon_cafi_2014\<close> is the island asset before \<^verbatim>\<open>unmask\<close>; \<open>square_kernel\<close> is the
  grid's square kernel in metres. The assets \<^verbatim>\<open>ucl\<close>, \<^verbatim>\<open>optical\<close> and \<^verbatim>\<open>ALOS\<close> are only
  displayed by the script and take no part in the two output rasters.
\<close>

record 'p assets =
  dem :: "'p image"
  gabon_os :: "'p image"
  water :: "'p image list"
  class2015 :: "'p image"
  class2015_no_alos :: "'p image"
  aoi :: "'p geometry"
  GHSbuiltup :: "'p image"
  lsib :: "'p geometry"
  countries_raster :: "'p image"
  treecover2015 :: "'p image"
  annobon_cafi_2014 :: "'p image"
  mangroves :: "'p image"
  ESA_worldcover_first :: "'p image"
  square_kernel :: "int \<Rightarrow> 'p \<Rightarrow> 'p list"

section \<open>The pipeline, variable by variable\<close>

subsection \<open>Derived inputs\<close>

definition builtup :: "'p assets \<Rightarrow> 'p image" where
  "builtup A = ee_remap [1,2,3,4,5,6] [0,0,1,1,1,1] (GHSbuiltup A)"

definition not_gabon :: "'p assets \<Rightarrow> 'p image" where
  "not_gabon A = ee_neq (countries_raster A) (ee_constant 6)"

definition holes :: "'p assets \<Rightarrow> 'p image" where
  "holes A = ee_unmask (ee_And (ee_neq (not_gabon A) (ee_constant 1))
                               (ee_eq (gabon_os A) (ee_constant 128)))"

definition water_area :: "'p assets \<Rightarrow> 'p image" where
  "water_area A = ee_clip (aoi A) (ee_mosaic (water A))"

definition seasonal :: "'p assets \<Rightarrow> 'p image" where
  "seasonal A = ee_unmask (ee_eq (ee_clip (aoi A) (water_area A)) (ee_constant 2))"

definition permanent :: "'p assets \<Rightarrow> 'p image" where
  "permanent A = ee_unmask (ee_eq (ee_clip (aoi A) (water_area A)) (ee_constant 3))"

definition annobon :: "'p assets \<Rightarrow> 'p image" where
  "annobon A = ee_unmask (annobon_cafi_2014 A)"

definition anno_area :: "'p assets \<Rightarrow> 'p image" where
  "anno_area A = ee_unmask (ee_gt (annobon A) (ee_constant 0))"

definition car_cam :: "'p assets \<Rightarrow> 'p image" where
  "car_cam A = ee_Or (ee_eq (countries_raster A) (ee_constant 2))
                     (ee_eq (countries_raster A) (ee_constant 3))"

subsection \<open>1. Recode classes from SEPAL to code DDD\<close>

definition class_values :: "int list" where
  "class_values = [1,2,3,4,5,6,7,8,9,10,11,12,13,14,15]"

definition reclass_values :: "int list" where
  "reclass_values = [1,2,3,4,7,8,9,11,12,13,14,15,16,17,18]"

definition classDDD :: "'p assets \<Rightarrow> 'p image" where
  "classDDD A = ee_unmask (ee_remap class_values reclass_values (class2015 A))"

definition classDDD_no_alos :: "'p assets \<Rightarrow> 'p image" where
  "classDDD_no_alos A =
     ee_unmask (ee_remap [1,2,3,4,5,6,7,8,9,10,11,12,13,14,15]
                         [1,2,3,4,7,8,9,11,12,13,14,15,16,17,18] (class2015_no_alos A))"

subsection \<open>2. Fix ALOS holes\<close>

definition alosholes :: "'p assets \<Rightarrow> 'p image" where
  "alosholes A = ee_add (ee_eq (classDDD A) (ee_constant 0)) (ee_constant 1)"

definition classDDD_fill :: "'p assets \<Rightarrow> 'p image" where
  "classDDD_fill A =
     ee_where (classDDD A) (ee_eq (alosholes A) (ee_constant 2)) (classDDD_no_alos A)"

subsection \<open>3. Fix built-up area\<close>

definition built17 :: "'p image" where
  "built17 = ee_constant 17"

definition built_wrong :: "'p assets \<Rightarrow> 'p image" where
  "built_wrong A = ee_And (ee_eq (classDDD_fill A) (ee_constant 17))
                          (ee_neq (builtup A) (ee_constant 1))"

definition class2015_fix :: "'p assets \<Rightarrow> 'p image" where
  "class2015_fix A = ee_where (classDDD_fill A) (ee_eq (builtup A) (ee_constant 1)) built17"

definition class2015_fix1 :: "'p assets \<Rightarrow> 'p image" where
  "class2015_fix1 A =
     ee_clip (aoi A)
       (ee_where (class2015_fix A) (ee_eq (built_wrong A) (ee_constant 1)) (ee_constant 15))"

subsection \<open>4. Apply tree cover for closed and open forest\<close>

definition claire :: "'p assets \<Rightarrow> 'p image" where
  "claire A = ee_lt (treecover2015 A) (ee_constant 60)"

definition dense :: "'p assets \<Rightarrow> 'p image" where
  "dense A = ee_gte (treecover2015 A) (ee_constant 60)"

definition forest_to_split :: "'p assets \<Rightarrow> 'p image" where
  "forest_to_split A = ee_Or (ee_eq (class2015_fix1 A) (ee_constant 2))
                             (ee_eq (class2015_fix1 A) (ee_constant 4))"

definition forestclaireseche :: "'p assets \<Rightarrow> 'p image" where
  "forestclaireseche A = ee_And (ee_eq (forest_to_split A) (ee_constant 1))
                                (ee_eq (claire A) (ee_constant 1))"

definition forestdenseseche :: "'p assets \<Rightarrow> 'p image" where
  "forestdenseseche A = ee_And (ee_eq (forest_to_split A) (ee_constant 1))
                               (ee_eq (dense A) (ee_constant 1))"

definition class2015_fix2 :: "'p assets \<Rightarrow> 'p image" where
  "class2015_fix2 A =
     ee_where (class2015_fix1 A) (ee_eq (forestclaireseche A) (ee_constant 1)) (ee_constant 4)"

definition class2015_fix3 :: "'p assets \<Rightarrow> 'p image" where
  "class2015_fix3 A =
     ee_where (class2015_fix2 A) (ee_eq (forestdenseseche A) (ee_constant 1)) (ee_constant 2)"

subsection \<open>5. Fix montane forest based on elevation\<close>

definition montane :: "'p assets \<Rightarrow> 'p image" where
  "montane A = ee_And (ee_gte (dem A) (ee_constant 1750))
                      (ee_eq (class2015_fix1 A) (ee_constant 1))"

definition submontane :: "'p assets \<Rightarrow> 'p image" where
  "submontane A =
     ee_And (ee_lt (dem A) (ee_constant 1750))
            (ee_And (ee_gte (dem A) (ee_constant 1100))
                    (ee_eq (class2015_fix1 A) (ee_constant 1)))"

definition class2015_fix4 :: "'p assets \<Rightarrow> 'p image" where
  "class2015_fix4 A =
     ee_where (class2015_fix3 A) (ee_eq (submontane A) (ee_constant 1)) (ee_constant 5)"

definition class2015_fix5 :: "'p assets \<Rightarrow> 'p image" where
  "class2015_fix5 A =
     ee_where (class2015_fix4 A) (ee_eq (montane A) (ee_constant 1)) (ee_constant 6)"

definition gabon_mask :: "'p assets \<Rightarrow> 'p image" where
  "gabon_mask A = ee_neq (gabon_os A) (ee_constant 128)"

subsection \<open>6. Fix mangrove based on elevation and the buffered ESA mangrove layer\<close>

definition ESA_mang :: "'p assets \<Rightarrow> 'p image" where
  "ESA_mang A = ee_clip (aoi A) (ee_eq (ESA_worldcover_first A) (ee_constant 95))"

definition buffer_dist :: int where
  "buffer_dist = 500"

definition mang_buffer :: "'p assets \<Rightarrow> 'p image" where
  "mang_buffer A = ee_focal_max (square_kernel A) buffer_dist (ESA_mang A)"

definition mangarea :: "'p assets \<Rightarrow> 'p image" where
  "mangarea A =
     ee_unmask (ee_updateMask (ee_And (ee_lte (dem A) (ee_constant 35))
                                      (ee_lte (class2015_fix5 A) (ee_constant 12)))
                              (mang_buffer A))"

definition nomang :: "'p assets \<Rightarrow> 'p image" where
  "nomang A = ee_unmask (ee_Or (ee_gte (dem A) (ee_constant 35))
                               (ee_eq (countries_raster A) (ee_constant 3)))"

definition mangadd :: "'p assets \<Rightarrow> 'p image" where
  "mangadd A = ee_unmask (ee_And (ee_eq (mangroves A) (ee_constant 1))
                                 (ee_eq (mangarea A) (ee_constant 1)))"

definition mangfix :: "'p assets \<Rightarrow> 'p image" where
  "mangfix A = ee_unmask (ee_And (ee_eq (mangroves A) (ee_constant 1))
                                 (ee_eq (nomang A) (ee_constant 1)))"

definition class2015_fix6 :: "'p assets \<Rightarrow> 'p image" where
  "class2015_fix6 A =
     ee_where (class2015_fix5 A) (ee_eq (mangadd A) (ee_constant 1)) (ee_constant 7)"

definition class2015_fix7 :: "'p assets \<Rightarrow> 'p image" where
  "class2015_fix7 A =
     ee_where (class2015_fix6 A) (ee_eq (mangfix A) (ee_constant 1)) (ee_constant 8)"

subsection \<open>7. Fix water and aquatic grassland with the surface-water data\<close>

definition prairie :: "'p assets \<Rightarrow> 'p image" where
  "prairie A =
     ee_And (ee_eq (seasonal A) (ee_constant 1))
            (ee_And (ee_neq (class2015_fix7 A) (ee_constant 14))
                    (ee_neq (class2015_fix7 A) (ee_constant 18)))"

definition class2015_fixwater1 :: "'p assets \<Rightarrow> 'p image" where
  "class2015_fixwater1 A =
     ee_where (class2015_fix7 A) (ee_eq (prairie A) (ee_constant 1)) (ee_constant 14)"

definition class2015_fixwater :: "'p assets \<Rightarrow> 'p image" where
  "class2015_fixwater A =
     ee_unmask (ee_where (class2015_fixwater1 A) (ee_eq (permanent A) (ee_constant 1))
                         (ee_constant 18))"

subsection \<open>8. Add the Gabon and Annobon data\<close>

definition class2015_wgab :: "'p assets \<Rightarrow> 'p image" where
  "class2015_wgab A =
     ee_where (class2015_fixwater A) (ee_neq (not_gabon A) (ee_constant 1)) (gabon_os A)"

definition class2015_clean :: "'p assets \<Rightarrow> 'p image" where
  "class2015_clean A =
     ee_where (class2015_wgab A) (ee_eq (holes A) (ee_constant 1)) (class2015_fixwater A)"

definition class2015_final :: "'p assets \<Rightarrow> 'p image" where
  "class2015_final A =
     ee_where (class2015_clean A) (ee_gt (anno_area A) (ee_constant 0)) (annobon A)"

subsection \<open>9. Forest / non-forest, with the national forest definition\<close>

definition caf_sav :: "'p assets \<Rightarrow> 'p image" where
  "caf_sav A = ee_And (ee_eq (car_cam A) (ee_constant 1))
                      (ee_eq (class2015_final A) (ee_constant 12))"

definition fnf :: "'p assets \<Rightarrow> 'p image" where
  "fnf A =
     ee_clip (aoi A)
       (ee_remap [1,2,3,4,5,6,7,8,9,11,12,13,14,15,16,17,18]
                 [1,1,1,1,1,1,1,1,1,1,2,2,2,2,2,2,3] (class2015_final A))"

definition fnf_final :: "'p assets \<Rightarrow> 'p image" where
  "fnf_final A =
     ee_clip (lsib A) (ee_where (fnf A) (ee_eq (caf_sav A) (ee_constant 1)) (ee_constant 1))"

section \<open>A concrete raster stack\<close>

text \<open>
  A stack of constant layers over pixels numbered by naturals: elevation 10 m, raw class 1
  in both classifications, tree cover 80, country code 2, the whole grid inside the study
  area and the boundary, mangrove reference present everywhere, no built-up, water,
  national or island data. The theorems below are instantiated on updates of it.
\<close>

definition sample_assets :: "nat assets" where
  "sample_assets =
     \<lparr> dem = (\<lambda>p. Some 10), gabon_os = (\<lambda>p. None), water = [],
       class2015 = (\<lambda>p. Some 1), class2015_no_alos = (\<lambda>p. Some 1),
       aoi = (\<lambda>p. True), GHSbuiltup = (\<lambda>p. None), lsib = (\<lambda>p. True),
       countries_raster = (\<lambda>p. Some 2), treecover2015 = (\<lambda>p. Some 80),
       annobon_cafi_2014 = (\<lambda>p. None), mangroves = (\<lambda>p. Some 0),
       ESA_worldcover_first = (\<lambda>p. Some 95), square_kernel = (\<lambda>r p. [p]) \<rparr>"

section \<open>Pixel-wise facts about the operators\<close>

text \<open>Which pixels a test image selects, operator by operator.\<close>

lemma selected_constant: "selected (ee_constant c) p = (c \<noteq> 0)"
  by (simp add: selected_def ee_constant_def)

lemma selected_eq_const: "selected (ee_eq a (ee_constant c)) p = (a p = Some c)"
  by (simp add: selected_def ee_eq_def binop_def ee_constant_def b2i_def split: option.splits)

lemma selected_neq_const: "selected (ee_neq a (ee_constant c)) p = (\<exists>v. a p = Some v \<and> v \<noteq> c)"
  by (simp add: selected_def ee_neq_def binop_def ee_constant_def b2i_def split: option.splits)

lemma selected_lt_const: "selected (ee_lt a (ee_constant c)) p = (\<exists>v. a p = Some v \<and> v < c)"
  by (simp add: selected_def ee_lt_def binop_def ee_constant_def b2i_def split: option.splits)

lemma selected_lte_const: "selected (ee_lte a (ee_constant c)) p = (\<exists>v. a p = Some v \<and> v \<le> c)"
  by (simp add: selected_def ee_lte_def binop_def ee_constant_def b2i_def split: option.splits)

lemma selected_gt_const: "selected (ee_gt a (ee_constant c)) p = (\<exists>v. a p = Some v \<and> c < v)"
  by (simp add: selected_def ee_gt_def binop_def ee_constant_def b2i_def split: option.splits)

lemma selected_gte_const: "selected (ee_gte a (ee_constant c)) p = (\<exists>v. a p = Some v \<and> c \<le> v)"
  by (simp add: selected_def ee_gte_def binop_def ee_constant_def b2i_def split: option.splits)

lemma selected_And: "selected (ee_And a b) p = (selected a p \<and> selected b p)"
  by (simp add: selected_def ee_And_def binop_def b2i_def split: option.splits)

lemma selected_Or:
  "selected (ee_Or a b) p = (a p \<noteq> None \<and> b p \<noteq> None \<and> (selected a p \<or> selected b p))"
  by (auto simp add: selected_def ee_Or_def binop_def b2i_def split: option.splits)

lemma selected_unmask: "selected (ee_unmask a) p = selected a p"
  by (simp add: selected_def ee_unmask_def split: option.splits)

lemma selected_clip: "selected (ee_clip g a) p = (g p \<and> selected a p)"
  by (simp add: selected_def ee_clip_def)

lemma selected_updateMask: "selected (ee_updateMask a m) p = (selected a p \<and> selected m p)"
  by (auto simp add: selected_def ee_updateMask_def split: option.splits)

text \<open>Comparison and boolean images hold 0 or 1: being 1 is being selected.\<close>

lemma eq_const_is_1: "(ee_eq a (ee_constant c) p = Some 1) = (a p = Some c)"
  by (simp add: ee_eq_def binop_def ee_constant_def b2i_def split: option.splits)

lemma And_is_1: "(ee_And a b p = Some 1) = (selected a p \<and> selected b p)"
  by (simp add: selected_def ee_And_def binop_def b2i_def split: option.splits)

lemma Or_is_1:
  "(ee_Or a b p = Some 1) = (a p \<noteq> None \<and> b p \<noteq> None \<and> (selected a p \<or> selected b p))"
  by (auto simp add: selected_def ee_Or_def binop_def b2i_def split: option.splits)

lemma neq_const_is_1: "(ee_neq a (ee_constant c) p = Some 1) = (\<exists>v. a p = Some v \<and> v \<noteq> c)"
  by (auto simp add: ee_neq_def binop_def ee_constant_def b2i_def split: option.splits)

lemma lt_const_is_1: "(ee_lt a (ee_constant c) p = Some 1) = (\<exists>v. a p = Some v \<and> v < c)"
  by (auto simp add: ee_lt_def binop_def ee_constant_def b2i_def split: option.splits)

lemma lte_const_is_1: "(ee_lte a (ee_constant c) p = Some 1) = (\<exists>v. a p = Some v \<and> v \<le> c)"
  by (auto simp add: ee_lte_def binop_def ee_constant_def b2i_def split: option.splits)

lemma gt_const_is_1: "(ee_gt a (ee_constant c) p = Some 1) = (\<exists>v. a p = Some v \<and> c < v)"
  by (auto simp add: ee_gt_def binop_def ee_constant_def b2i_def split: option.splits)

lemma gte_const_is_1: "(ee_gte a (ee_constant c) p = Some 1) = (\<exists>v. a p = Some v \<and> c \<le> v)"
  by (auto simp add: ee_gte_def binop_def ee_constant_def b2i_def split: option.splits)

lemma unmask_is_1: "(ee_unmask a p = Some 1) = (a p = Some 1)"
  by (simp add: ee_unmask_def split: option.splits)

lemma updateMask_is_1: "(ee_updateMask a m p = Some 1) = (a p = Some 1 \<and> selected m p)"
  by (auto simp add: ee_updateMask_def split: option.splits)

lemma ee_where_None: "(ee_where a t v p = None) = (a p = None)"
  by (simp add: ee_where_def split: option.splits)

lemma ee_where_const:
  "ee_where a t (ee_constant c) p =
     (case a p of None \<Rightarrow> None | Some x \<Rightarrow> if selected t p then Some c else Some x)"
  by (simp add: ee_where_def ee_constant_def split: option.splits)

lemma ee_where_miss: "\<not> selected t p \<Longrightarrow> ee_where a t v p = a p"
  by (simp add: ee_where_def split: option.splits)

lemma ee_unmask_Some: "a p = Some x \<Longrightarrow> ee_unmask a p = Some x"
  by (simp add: ee_unmask_def)

lemma ee_unmask_None: "ee_unmask a p \<noteq> None"
  by (simp add: ee_unmask_def split: option.splits)

text \<open>The value of an operation against a constant.\<close>

lemma ee_add_const: "ee_add a (ee_constant c) p = map_option (\<lambda>v. v + c) (a p)"
  by (simp add: ee_add_def binop_def ee_constant_def split: option.splits)

lemma ee_eq_const: "ee_eq a (ee_constant c) p = map_option (\<lambda>v. b2i (v = c)) (a p)"
  by (simp add: ee_eq_def binop_def ee_constant_def split: option.splits)

lemma ee_neq_const: "ee_neq a (ee_constant c) p = map_option (\<lambda>v. b2i (v \<noteq> c)) (a p)"
  by (simp add: ee_neq_def binop_def ee_constant_def split: option.splits)

lemma ee_gte_const: "ee_gte a (ee_constant c) p = map_option (\<lambda>v. b2i (c \<le> v)) (a p)"
  by (simp add: ee_gte_def binop_def ee_constant_def split: option.splits)

lemma ee_gt_const: "ee_gt a (ee_constant c) p = map_option (\<lambda>v. b2i (c < v)) (a p)"
  by (simp add: ee_gt_def binop_def ee_constant_def split: option.splits)

lemma ee_unmask_px: "ee_unmask a p = Some (case a p of None \<Rightarrow> 0 | Some v \<Rightarrow> v)"
  by (simp add: ee_unmask_def split: option.splits)

section \<open>Stage 1: the class remapper\<close>

text \<open>\<^verbatim>\<open>remap\<close> followed by \<^verbatim>\<open>unmask\<close>, for any two tables.\<close>

lemma remap_unmask_range:
  "ee_unmask (ee_remap fs ts img) p \<in> Some ` (set ts \<union> {0})"
proof (cases "ee_remap fs ts img p")
  case None
  then show ?thesis by (simp add: ee_unmask_def)
next
  case (Some w)
  then obtain v where "map_of (zip fs ts) v = Some w"
    by (auto simp add: ee_remap_def split: option.splits)
  then have "(v, w) \<in> set (zip fs ts)" by (rule map_of_SomeD)
  then have "w \<in> set ts" by (rule set_zip_rightD)
  with Some show ?thesis by (simp add: ee_unmask_def)
qed

lemma remap_unmask_hit:
  assumes "length fs = length ts" "distinct fs" "i < length fs" "img p = Some (fs ! i)"
  shows "ee_unmask (ee_remap fs ts img) p = Some (ts ! i)"
  using assms by (simp add: ee_unmask_def ee_remap_def map_of_zip_nth)

lemma remap_unmask_miss:
  assumes "length fs = length ts" "img p \<notin> Some ` set fs"
  shows "ee_unmask (ee_remap fs ts img) p = Some 0"
proof (cases "img p")
  case None
  then show ?thesis by (simp add: ee_unmask_def ee_remap_def)
next
  case (Some v)
  with assms(2) have "v \<notin> set fs" by auto
  with assms(1) have "map_of (zip fs ts) v = None" by (simp add: map_of_zip_is_None)
  with Some show ?thesis by (simp add: ee_unmask_def ee_remap_def)
qed


lemma class_values_length: "length class_values = length reclass_values"
  by (simp add: class_values_def reclass_values_def)

lemma class_values_distinct: "distinct class_values"
  by (simp add: class_values_def)

text \<open>
  Claim C5. Class Remapper, as the script applies it to the classification
  (\<^verbatim>\<open>classDDD = class2015.remap(class_values, reclass_values).unmask()\<close>): at every
  pixel the output is one of \<open>reclass_values\<close> or 0; a pixel whose input equals
  \<open>class_values[i]\<close> becomes \<open>reclass_values[i]\<close>; a pixel whose input is not in
  \<open>class_values\<close> (a masked pixel included) becomes 0: there is no passthrough.
\<close>

theorem classDDD_remap: 
  "classDDD A p \<in> Some ` (set reclass_values \<union> {0}) \<and>
   (\<forall>i < length class_values.
       class2015 A p = Some (class_values ! i) \<longrightarrow> classDDD A p = Some (reclass_values ! i)) \<and>
   (class2015 A p \<notin> Some ` set class_values \<longrightarrow> classDDD A p = Some 0)"
proof (intro conjI allI impI)
  show "classDDD A p \<in> Some ` (set reclass_values \<union> {0})"
    unfolding classDDD_def by (rule remap_unmask_range)
next
  fix i
  assume "i < length class_values" "class2015 A p = Some (class_values ! i)"
  then show "classDDD A p = Some (reclass_values ! i)"
    unfolding classDDD_def
    by (rule remap_unmask_hit [OF class_values_length class_values_distinct])
next
  assume "class2015 A p \<notin> Some ` set class_values"
  then show "classDDD A p = Some 0"
    unfolding classDDD_def by (rule remap_unmask_miss [OF class_values_length])
qed

text \<open>Raw class 5 becomes 7; raw class 99 and a masked pixel become 0.\<close>

theorem classDDD_remap_witness:
  "(4::nat) < length class_values \<and>
   class2015 (sample_assets\<lparr>class2015 := (\<lambda>p. Some 5)\<rparr>) 0 = Some (class_values ! 4) \<and>
   classDDD (sample_assets\<lparr>class2015 := (\<lambda>p. Some 5)\<rparr>) 0 = Some 7 \<and>
   class2015 (sample_assets\<lparr>class2015 := (\<lambda>p. Some 99)\<rparr>) 0 \<notin> Some ` set class_values \<and>
   classDDD (sample_assets\<lparr>class2015 := (\<lambda>p. Some 99)\<rparr>) 0 = Some 0 \<and>
   class2015 (sample_assets\<lparr>class2015 := (\<lambda>p. None)\<rparr>) 0 \<notin> Some ` set class_values \<and>
   classDDD (sample_assets\<lparr>class2015 := (\<lambda>p. None)\<rparr>) 0 = Some 0"
proof -
  let ?A = "sample_assets\<lparr>class2015 := (\<lambda>p. Some 5)\<rparr>"
  let ?B = "sample_assets\<lparr>class2015 := (\<lambda>p. Some 99)\<rparr>"
  let ?C = "sample_assets\<lparr>class2015 := (\<lambda>p. None)\<rparr>"
  have a1: "(4::nat) < length class_values"
    by (simp add: class_values_def)
  have a2: "class2015 ?A 0 = Some (class_values ! 4)"
    by (simp add: class_values_def)
  have "classDDD ?A 0 = Some (reclass_values ! 4)"
    using classDDD_remap [of ?A 0, THEN conjunct2, THEN conjunct1, rule_format, OF a1 a2] .
  then have a3: "classDDD ?A 0 = Some 7"
    by (simp add: reclass_values_def)
  have b1: "class2015 ?B 0 \<notin> Some ` set class_values"
    by (simp add: class_values_def)
  have b2: "classDDD ?B 0 = Some 0"
    using classDDD_remap [of ?B 0, THEN conjunct2, THEN conjunct2, rule_format, OF b1] .
  have c1: "class2015 ?C 0 \<notin> Some ` set class_values"
    by simp
  have c2: "classDDD ?C 0 = Some 0"
    using classDDD_remap [of ?C 0, THEN conjunct2, THEN conjunct2, rule_format, OF c1] .
  from a1 a2 a3 b1 b2 c1 c2 show ?thesis by blast
qed

section \<open>Stage 2: the gap filler\<close>

lemma classDDD_not_None: "classDDD A p \<noteq> None"
  by (simp add: classDDD_def ee_unmask_None)

lemma classDDD_no_alos_not_None: "classDDD_no_alos A p \<noteq> None"
  by (simp add: classDDD_no_alos_def ee_unmask_None)

lemma alosholes_is_2: "(alosholes A p = Some 2) = (classDDD A p = Some 0)"
  by (auto simp add: alosholes_def ee_add_const ee_eq_const b2i_def)

lemma classDDD_fill_px:
  "classDDD_fill A p = (if classDDD A p = Some 0 then classDDD_no_alos A p else classDDD A p)"
  using classDDD_not_None [of A p] classDDD_no_alos_not_None [of A p]
  by (auto simp add: classDDD_fill_def ee_where_def selected_eq_const alosholes_is_2
      split: option.splits)


text \<open>
  Claim C6. Gap Filler: at every pixel the output \<open>classDDD_fill\<close> equals the primary
  classification \<open>classDDD\<close> where that is not 0, whatever the secondary holds there,
  and equals the secondary \<open>classDDD_no_alos\<close> where the primary is 0; filling a
  classification with itself gives it back.
\<close>

theorem classDDD_fill_gap:
  "(classDDD A p \<noteq> Some 0 \<longrightarrow> classDDD_fill A p = classDDD A p) \<and>
   (classDDD A p = Some 0 \<longrightarrow> classDDD_fill A p = classDDD_no_alos A p) \<and>
   (class2015_no_alos A = class2015 A \<longrightarrow> classDDD_fill A = classDDD A)"
proof (intro conjI impI)
  assume "classDDD A p \<noteq> Some 0"
  then show "classDDD_fill A p = classDDD A p" by (simp add: classDDD_fill_px)
next
  assume "classDDD A p = Some 0"
  then show "classDDD_fill A p = classDDD_no_alos A p" by (simp add: classDDD_fill_px)
next
  assume same: "class2015_no_alos A = class2015 A"
  have "classDDD_no_alos A = classDDD A"
    unfolding classDDD_no_alos_def classDDD_def class_values_def reclass_values_def same ..
  then show "classDDD_fill A = classDDD A"
    by (intro ext) (simp add: classDDD_fill_px)
qed

text \<open>A valid primary pixel wins over a different secondary one; a hole takes the
  secondary value; the sample stack has the same raw classification twice.\<close>

theorem classDDD_fill_gap_witness:
  "classDDD (sample_assets\<lparr>class2015_no_alos := (\<lambda>p. Some 5)\<rparr>) 0 \<noteq> Some 0 \<and>
   classDDD_fill (sample_assets\<lparr>class2015_no_alos := (\<lambda>p. Some 5)\<rparr>) 0 = Some 1 \<and>
   classDDD (sample_assets\<lparr>class2015 := (\<lambda>p. None), class2015_no_alos := (\<lambda>p. Some 5)\<rparr>) 0 = Some 0 \<and>
   classDDD_fill (sample_assets\<lparr>class2015 := (\<lambda>p. None), class2015_no_alos := (\<lambda>p. Some 5)\<rparr>) 0
     = Some 7 \<and>
   class2015_no_alos sample_assets = class2015 sample_assets \<and>
   classDDD_fill sample_assets = classDDD sample_assets"
proof -
  let ?A = "sample_assets\<lparr>class2015_no_alos := (\<lambda>p. Some 5)\<rparr>"
  let ?B = "sample_assets\<lparr>class2015 := (\<lambda>p. None), class2015_no_alos := (\<lambda>p. Some 5)\<rparr>"
  have a0: "classDDD ?A 0 = Some 1"
    by (simp add: sample_assets_def classDDD_def ee_unmask_def ee_remap_def class_values_def
        reclass_values_def)
  then have a1: "classDDD ?A 0 \<noteq> Some 0" by simp
  have a2: "classDDD_fill ?A 0 = Some 1"
    using classDDD_fill_gap [of ?A 0, THEN conjunct1, rule_format, OF a1] a0 by simp
  have b1: "classDDD ?B 0 = Some 0"
    by (simp add: classDDD_def ee_unmask_def ee_remap_def)
  have "classDDD_no_alos ?B 0 = Some 7"
    by (simp add: classDDD_no_alos_def ee_unmask_def ee_remap_def)
  then have b2: "classDDD_fill ?B 0 = Some 7"
    using classDDD_fill_gap [of ?B 0, THEN conjunct2, THEN conjunct1, rule_format, OF b1] by simp
  have c1: "class2015_no_alos sample_assets = class2015 sample_assets"
    by (simp add: sample_assets_def)
  have c2: "classDDD_fill sample_assets = classDDD sample_assets"
    using classDDD_fill_gap [of sample_assets 0, THEN conjunct2, THEN conjunct2, rule_format, OF c1] .
  from a1 a2 b1 b2 c1 c2 show ?thesis by blast
qed

section \<open>Stage 3: the built-up corrector\<close>

lemma class2015_fix_px:
  "class2015_fix A p = (if builtup A p = Some 1 then Some 17 else classDDD_fill A p)"
proof (cases "classDDD_fill A p")
  case None
  then show ?thesis
    using classDDD_not_None [of A p] classDDD_no_alos_not_None [of A p]
    by (simp add: classDDD_fill_px split: if_splits)
next
  case (Some c)
  then show ?thesis
    by (simp add: class2015_fix_def built17_def ee_where_const selected_eq_const)
qed

lemma class2015_fix_not_None: "class2015_fix A p \<noteq> None"
  using classDDD_not_None [of A p] classDDD_no_alos_not_None [of A p]
  by (simp add: class2015_fix_def ee_where_None classDDD_fill_px)

lemma built_wrong_is_1:
  "(built_wrong A p = Some 1) =
     (classDDD_fill A p = Some 17 \<and> (\<exists>v. builtup A p = Some v \<and> v \<noteq> 1))"
  by (simp add: built_wrong_def And_is_1 selected_eq_const selected_neq_const)

lemma class2015_fix1_px:
  "class2015_fix1 A p =
     (if \<not> aoi A p then None
      else if classDDD_fill A p = Some 17 \<and> (\<exists>v. builtup A p = Some v \<and> v \<noteq> 1) then Some 15
      else class2015_fix A p)"
proof (cases "class2015_fix A p")
  case None
  then show ?thesis by (simp add: class2015_fix_not_None)
next
  case (Some c)
  then show ?thesis
    by (auto simp add: class2015_fix1_def ee_clip_def ee_where_const selected_eq_const
        built_wrong_is_1)
qed

lemma class2015_fix1_None: "(class2015_fix1 A p = None) = (\<not> aoi A p)"
  using class2015_fix_not_None [of A p] by (auto simp add: class2015_fix1_px)

section \<open>Stage 4: the canopy density splitter\<close>

lemma forest_to_split_is_1:
  "(forest_to_split A p = Some 1) = (class2015_fix1 A p = Some 2 \<or> class2015_fix1 A p = Some 4)"
  by (auto simp add: forest_to_split_def Or_is_1 ee_eq_const selected_eq_const)

lemma forestclaireseche_is_1:
  "(forestclaireseche A p = Some 1) =
     ((class2015_fix1 A p = Some 2 \<or> class2015_fix1 A p = Some 4) \<and>
      (\<exists>t. treecover2015 A p = Some t \<and> t < 60))"
  by (simp add: forestclaireseche_def And_is_1 selected_eq_const forest_to_split_is_1
      claire_def lt_const_is_1)

lemma forestdenseseche_is_1:
  "(forestdenseseche A p = Some 1) =
     ((class2015_fix1 A p = Some 2 \<or> class2015_fix1 A p = Some 4) \<and>
      (\<exists>t. treecover2015 A p = Some t \<and> 60 \<le> t))"
  by (simp add: forestdenseseche_def And_is_1 selected_eq_const forest_to_split_is_1
      dense_def gte_const_is_1)

lemma class2015_fix3_px:
  "class2015_fix3 A p =
     (case class2015_fix1 A p of None \<Rightarrow> None
      | Some c \<Rightarrow>
          if c = 2 \<or> c = 4
          then (case treecover2015 A p of None \<Rightarrow> Some c
                | Some t \<Rightarrow> if t < 60 then Some 4 else Some 2)
          else Some c)"
  by (auto simp add: class2015_fix3_def class2015_fix2_def ee_where_const selected_eq_const
      forestclaireseche_is_1 forestdenseseche_is_1 split: option.splits)

text \<open>The facts that evaluate the first three stages on a concrete stack.\<close>

lemmas eval_fix1 = sample_assets_def class2015_fix1_px class2015_fix_px classDDD_fill_px
  classDDD_def classDDD_no_alos_def builtup_def ee_remap_def ee_unmask_def class_values_def
  reclass_values_def

text \<open>
  Claim C9. Canopy Density Splitter, frame property: at every pixel whose class on entry
  (\<open>class2015_fix1\<close>) is neither 2 nor 4, the stage's output \<open>class2015_fix3\<close> is the
  class on entry, whatever the tree cover there (a masked tree cover and a masked class
  included).
\<close>

theorem class2015_fix3_frame:
  "class2015_fix1 A p \<noteq> Some 2 \<Longrightarrow> class2015_fix1 A p \<noteq> Some 4 \<Longrightarrow>
   class2015_fix3 A p = class2015_fix1 A p"
  by (simp add: class2015_fix3_px split: option.splits)

text \<open>Class 3 with tree cover 20 stays class 3.\<close>

theorem class2015_fix3_frame_witness:
  "class2015_fix1 (sample_assets\<lparr>class2015 := (\<lambda>p. Some 3), treecover2015 := (\<lambda>p. Some 20)\<rparr>) 0 \<noteq> Some 2 \<and>
   class2015_fix1 (sample_assets\<lparr>class2015 := (\<lambda>p. Some 3), treecover2015 := (\<lambda>p. Some 20)\<rparr>) 0 \<noteq> Some 4 \<and>
   class2015_fix3 (sample_assets\<lparr>class2015 := (\<lambda>p. Some 3), treecover2015 := (\<lambda>p. Some 20)\<rparr>) 0 = Some 3"
proof -
  let ?A = "sample_assets\<lparr>class2015 := (\<lambda>p. Some 3), treecover2015 := (\<lambda>p. Some 20)\<rparr>"
  have f1: "class2015_fix1 ?A 0 = Some 3"
    by (simp add: eval_fix1)
  then have h1: "class2015_fix1 ?A 0 \<noteq> Some 2" and h2: "class2015_fix1 ?A 0 \<noteq> Some 4"
    by simp_all
  from class2015_fix3_frame [OF h1 h2] f1 have "class2015_fix3 ?A 0 = Some 3" by simp
  with h1 h2 show ?thesis by blast
qed

section \<open>Stage 5: the elevation-based forest typer\<close>

lemma montane_is_1:
  "(montane A p = Some 1) = ((\<exists>e. dem A p = Some e \<and> 1750 \<le> e) \<and> class2015_fix1 A p = Some 1)"
  by (simp add: montane_def And_is_1 selected_gte_const selected_eq_const)

lemma submontane_is_1:
  "(submontane A p = Some 1) =
     ((\<exists>e. dem A p = Some e \<and> e < 1750 \<and> 1100 \<le> e) \<and> class2015_fix1 A p = Some 1)"
  by (auto simp add: submontane_def And_is_1 selected_And selected_lt_const selected_gte_const
      selected_eq_const)

lemma class2015_fix5_px:
  "class2015_fix5 A p =
     (if class2015_fix1 A p = Some 1
      then (case dem A p of None \<Rightarrow> Some 1
            | Some e \<Rightarrow> if 1750 \<le> e then Some 6 else if 1100 \<le> e then Some 5 else Some 1)
      else class2015_fix3 A p)"
  by (auto simp add: class2015_fix5_def class2015_fix4_def ee_where_const selected_eq_const
      montane_is_1 submontane_is_1 class2015_fix3_px split: option.splits)

lemma class2015_fix5_None: "(class2015_fix5 A p = None) = (\<not> aoi A p)"
  by (simp add: class2015_fix5_def class2015_fix4_def class2015_fix3_def class2015_fix2_def
      ee_where_None class2015_fix1_None)

text \<open>
  Claim C8. End to end over stages 4 and 5: a pixel of the base forest class 1 with
  elevation 1800 and tree cover 80 is still 1 after the canopy split and is 6 (montane
  forest) after the elevation typing, so neither 4 nor 5.
\<close>

theorem montane_scenario:
  "class2015_fix1 A p = Some 1 \<Longrightarrow> dem A p = Some 1800 \<Longrightarrow> treecover2015 A p = Some 80 \<Longrightarrow>
   class2015_fix3 A p = Some 1 \<and> class2015_fix5 A p = Some 6"
  by (simp add: class2015_fix5_px class2015_fix3_px)

text \<open>The sample stack raised to 1800 m.\<close>

theorem montane_scenario_witness:
  "class2015_fix1 (sample_assets\<lparr>dem := (\<lambda>p. Some 1800)\<rparr>) 0 = Some 1 \<and>
   dem (sample_assets\<lparr>dem := (\<lambda>p. Some 1800)\<rparr>) 0 = Some 1800 \<and>
   treecover2015 (sample_assets\<lparr>dem := (\<lambda>p. Some 1800)\<rparr>) 0 = Some 80 \<and>
   class2015_fix5 (sample_assets\<lparr>dem := (\<lambda>p. Some 1800)\<rparr>) 0 = Some 6"
proof -
  let ?A = "sample_assets\<lparr>dem := (\<lambda>p. Some 1800)\<rparr>"
  have h1: "class2015_fix1 ?A 0 = Some 1"
    by (simp add: eval_fix1)
  have h2: "dem ?A 0 = Some 1800"
    by simp
  have h3: "treecover2015 ?A 0 = Some 80"
    by (simp add: sample_assets_def)
  from montane_scenario [OF h1 h2 h3] h1 h2 h3 show ?thesis by blast
qed

section \<open>Stage 6: the mangrove corrector\<close>

text \<open>
  The two areas of the stage, as coded. \<open>nomang\<close> is
  \<^verbatim>\<open>dem.gte(35).Or(countries_raster.eq(3)).unmask()\<close>: the comparison is \<open>\<ge>\<close>, one
  country code (3) is named, and the \<^verbatim>\<open>unmask\<close> comes after the \<^verbatim>\<open>Or\<close>, so the
  area is 1 only where both the elevation and the country code have data.
\<close>

lemma nomang_is_1:
  "(nomang A p = Some 1) =
     (\<exists>e k. dem A p = Some e \<and> countries_raster A p = Some k \<and> (35 \<le> e \<or> k = 3))"
  by (auto simp add: nomang_def unmask_is_1 Or_is_1 ee_gte_const ee_eq_const selected_gte_const
      selected_eq_const)

lemma mangarea_is_1:
  "(mangarea A p = Some 1) =
     ((\<exists>e. dem A p = Some e \<and> e \<le> 35) \<and> (\<exists>c. class2015_fix5 A p = Some c \<and> c \<le> 12) \<and>
      selected (mang_buffer A) p)"
  by (simp add: mangarea_def unmask_is_1 updateMask_is_1 And_is_1 selected_lte_const)

lemma mangadd_is_1: "(mangadd A p = Some 1) = (mangroves A p = Some 1 \<and> mangarea A p = Some 1)"
  by (simp add: mangadd_def unmask_is_1 And_is_1 selected_eq_const)

lemma mangfix_is_1: "(mangfix A p = Some 1) = (mangroves A p = Some 1 \<and> nomang A p = Some 1)"
  by (simp add: mangfix_def unmask_is_1 And_is_1 selected_eq_const)

lemma class2015_fix6_px:
  "class2015_fix6 A p =
     (case class2015_fix5 A p of None \<Rightarrow> None
      | Some c \<Rightarrow> if mangroves A p = Some 1 \<and> mangarea A p = Some 1 then Some 7 else Some c)"
  by (auto simp add: class2015_fix6_def ee_where_const selected_eq_const mangadd_is_1
      split: option.splits)

lemma class2015_fix7_px:
  "class2015_fix7 A p =
     (case class2015_fix5 A p of None \<Rightarrow> None
      | Some c \<Rightarrow>
          if mangroves A p = Some 1 \<and> nomang A p = Some 1 then Some 8
          else if mangroves A p = Some 1 \<and> mangarea A p = Some 1 then Some 7
          else Some c)"
  by (auto simp add: class2015_fix7_def ee_where_const selected_eq_const mangfix_is_1
      class2015_fix6_px split: option.splits)

lemma class2015_fix7_None: "(class2015_fix7 A p = None) = (\<not> aoi A p)"
  by (simp add: class2015_fix7_def class2015_fix6_def ee_where_None class2015_fix5_None)

lemma own_pixel_buffer:
  "aoi A p \<Longrightarrow> ESA_worldcover_first A p = Some 95 \<Longrightarrow> square_kernel A 500 p = [p] \<Longrightarrow>
   selected (mang_buffer A) p"
  by (simp add: selected_def mang_buffer_def buffer_dist_def ee_focal_max_def
      List.map_filter_def ESA_mang_def ee_clip_def ee_eq_const b2i_def)

lemmas eval_fix5 = eval_fix1 class2015_fix5_px class2015_fix3_px

text \<open>
  Claim C1, as amended. Erroneous-area rule: at every pixel inside the study area where
  the mangrove indicator is 1, the elevation and the country code both have data, and
  the elevation is at least 35 m (so in particular above 35 m) or the country code is 3,
  the stage-6 output \<open>class2015_fix7\<close> is swamp forest (8).
\<close>

theorem mangrove_erroneous_fix:
  "aoi A p \<Longrightarrow> mangroves A p = Some 1 \<Longrightarrow> dem A p = Some e \<Longrightarrow>
   countries_raster A p = Some k \<Longrightarrow> 35 \<le> e \<or> k = 3 \<Longrightarrow> class2015_fix7 A p = Some 8"
proof -
  assume inside: "aoi A p" and m: "mangroves A p = Some 1" and e: "dem A p = Some e"
    and k: "countries_raster A p = Some k" and err: "35 \<le> e \<or> k = 3"
  from inside obtain c where "class2015_fix5 A p = Some c"
    using class2015_fix5_None [of A p] by auto
  moreover from e k err have "nomang A p = Some 1"
    by (simp add: nomang_is_1)
  ultimately show ?thesis
    using m by (simp add: class2015_fix7_px)
qed

text \<open>A mangrove pixel at 100 m in country 2.\<close>

theorem mangrove_erroneous_fix_witness:
  "aoi (sample_assets\<lparr>dem := (\<lambda>p. Some 100), mangroves := (\<lambda>p. Some 1)\<rparr>) 0 \<and>
   mangroves (sample_assets\<lparr>dem := (\<lambda>p. Some 100), mangroves := (\<lambda>p. Some 1)\<rparr>) 0 = Some 1 \<and>
   dem (sample_assets\<lparr>dem := (\<lambda>p. Some 100), mangroves := (\<lambda>p. Some 1)\<rparr>) 0 = Some 100 \<and>
   countries_raster (sample_assets\<lparr>dem := (\<lambda>p. Some 100), mangroves := (\<lambda>p. Some 1)\<rparr>) 0
     = Some 2 \<and>
   ((35::int) \<le> 100 \<or> (2::int) = 3) \<and>
   class2015_fix7 (sample_assets\<lparr>dem := (\<lambda>p. Some 100), mangroves := (\<lambda>p. Some 1)\<rparr>) 0
     = Some 8"
proof -
  let ?A = "sample_assets\<lparr>dem := (\<lambda>p. Some 100), mangroves := (\<lambda>p. Some 1)\<rparr>"
  have h1: "aoi ?A 0" by (simp add: sample_assets_def)
  have h2: "mangroves ?A 0 = Some 1" by simp
  have h3: "dem ?A 0 = Some 100" by simp
  have h4: "countries_raster ?A 0 = Some 2" by (simp add: sample_assets_def)
  have h5: "(35::int) \<le> 100 \<or> (2::int) = 3" by simp
  from mangrove_erroneous_fix [OF h1 h2 h3 h4 h5] h1 h2 h3 h4 h5 show ?thesis by blast
qed

text \<open>
  Claim C1 as stated fails. The stage names one country, code 3, not a pair: a mangrove
  pixel at 10 m in country 2 (the other country of \<open>car_cam\<close>, the only pair the script
  forms) is not turned into swamp forest; here it is inside the buffer and ends as
  mangrove (7). Nor does the rule reach a pixel at 100 m whose country code is masked
  (it keeps its class), or one outside the study area (it stays masked).
\<close>

theorem mangrove_erroneous_fix_counterexample:
  "countries_raster (sample_assets\<lparr>mangroves := (\<lambda>p. Some 1)\<rparr>) 0 = Some 2 \<and>
   mangroves (sample_assets\<lparr>mangroves := (\<lambda>p. Some 1)\<rparr>) 0 = Some 1 \<and>
   class2015_fix7 (sample_assets\<lparr>mangroves := (\<lambda>p. Some 1)\<rparr>) 0 = Some 7 \<and>
   dem (sample_assets\<lparr>dem := (\<lambda>p. Some 100), mangroves := (\<lambda>p. Some 1),
                      countries_raster := (\<lambda>p. None)\<rparr>) 0 = Some 100 \<and>
   class2015_fix7 (sample_assets\<lparr>dem := (\<lambda>p. Some 100), mangroves := (\<lambda>p. Some 1),
                      countries_raster := (\<lambda>p. None)\<rparr>) 0 = Some 1 \<and>
   dem (sample_assets\<lparr>dem := (\<lambda>p. Some 100), mangroves := (\<lambda>p. Some 1),
                      aoi := (\<lambda>p. False)\<rparr>) 0 = Some 100 \<and>
   class2015_fix7 (sample_assets\<lparr>dem := (\<lambda>p. Some 100), mangroves := (\<lambda>p. Some 1),
                      aoi := (\<lambda>p. False)\<rparr>) 0 = None"
proof -
  let ?A = "sample_assets\<lparr>mangroves := (\<lambda>p. Some 1)\<rparr>"
  let ?B = "sample_assets\<lparr>dem := (\<lambda>p. Some 100), mangroves := (\<lambda>p. Some 1),
                      countries_raster := (\<lambda>p. None)\<rparr>"
  let ?C = "sample_assets\<lparr>dem := (\<lambda>p. Some 100), mangroves := (\<lambda>p. Some 1),
                      aoi := (\<lambda>p. False)\<rparr>"
  have a1: "countries_raster ?A 0 = Some 2" by (simp add: sample_assets_def)
  have a2: "mangroves ?A 0 = Some 1" by simp
  have a5: "class2015_fix5 ?A 0 = Some 1" by (simp add: eval_fix5)
  have ab: "selected (mang_buffer ?A) 0"
    by (rule own_pixel_buffer) (simp_all add: sample_assets_def)
  have a3: "class2015_fix7 ?A 0 = Some 7"
    using a5 ab by (simp add: class2015_fix7_px nomang_is_1 mangarea_is_1 sample_assets_def)
  have b1: "dem ?B 0 = Some 100" by simp
  have b5: "class2015_fix5 ?B 0 = Some 1" by (simp add: eval_fix5)
  have b2: "class2015_fix7 ?B 0 = Some 1"
    using b5 by (simp add: class2015_fix7_px nomang_is_1 mangarea_is_1 sample_assets_def)
  have c1: "dem ?C 0 = Some 100" by simp
  have c2: "class2015_fix7 ?C 0 = None" by (simp add: class2015_fix7_None)
  from a1 a2 a3 b1 b2 c1 c2 show ?thesis by blast
qed

text \<open>
  Claim C2, as amended. The addable area \<open>mangarea\<close> and the erroneous area \<open>nomang\<close>
  overlap exactly at the pixels of class at most 12 inside the dilated buffer whose
  elevation is exactly 35 m, or is below 35 m with country code 3; at every other pixel
  at most one of the two holds.
\<close>

theorem mangrove_predicates_overlap:
  "(mangarea A p = Some 1 \<and> nomang A p = Some 1) =
     ((\<exists>c. class2015_fix5 A p = Some c \<and> c \<le> 12) \<and> selected (mang_buffer A) p \<and>
      (\<exists>e k. dem A p = Some e \<and> countries_raster A p = Some k \<and>
             (e = 35 \<or> (e < 35 \<and> k = 3))))"
  by (auto simp add: mangarea_is_1 nomang_is_1)

text \<open>
  Claim C2 as stated fails: both areas hold at a pixel at 10 m in country 3, and at a
  pixel at exactly 35 m in country 2 (class 1, inside the buffer).
\<close>

theorem mangrove_predicates_overlap_counterexample:
  "mangarea (sample_assets\<lparr>countries_raster := (\<lambda>p. Some 3)\<rparr>) 0 = Some 1 \<and>
   nomang (sample_assets\<lparr>countries_raster := (\<lambda>p. Some 3)\<rparr>) 0 = Some 1 \<and>
   mangarea (sample_assets\<lparr>dem := (\<lambda>p. Some 35)\<rparr>) 0 = Some 1 \<and>
   nomang (sample_assets\<lparr>dem := (\<lambda>p. Some 35)\<rparr>) 0 = Some 1"
proof -
  let ?A = "sample_assets\<lparr>countries_raster := (\<lambda>p. Some 3)\<rparr>"
  let ?B = "sample_assets\<lparr>dem := (\<lambda>p. Some 35)\<rparr>"
  have a5: "class2015_fix5 ?A 0 = Some 1" by (simp add: eval_fix5)
  have ab: "selected (mang_buffer ?A) 0"
    by (rule own_pixel_buffer) (simp_all add: sample_assets_def)
  have a1: "mangarea ?A 0 = Some 1"
    using a5 ab by (simp add: mangarea_is_1 sample_assets_def)
  have a2: "nomang ?A 0 = Some 1"
    by (simp add: nomang_is_1 sample_assets_def)
  have b5: "class2015_fix5 ?B 0 = Some 1" by (simp add: eval_fix5)
  have bb: "selected (mang_buffer ?B) 0"
    by (rule own_pixel_buffer) (simp_all add: sample_assets_def)
  have b1: "mangarea ?B 0 = Some 1"
    using b5 bb by (simp add: mangarea_is_1 sample_assets_def)
  have b2: "nomang ?B 0 = Some 1"
    by (simp add: nomang_is_1 sample_assets_def)
  from a1 a2 b1 b2 show ?thesis by blast
qed

text \<open>
  Claim C10, as amended. At exactly 35 m, a pixel with mangrove indicator 1, class at
  most 12, inside the dilated buffer, and with a country code present, lies in both the
  addable and the erroneous area; the first overwrite makes it mangrove (7) and the
  second, running after it, makes it swamp forest (8).
\<close>

theorem mangrove_boundary_35:
  "mangroves A p = Some 1 \<Longrightarrow> dem A p = Some 35 \<Longrightarrow> class2015_fix5 A p = Some c \<Longrightarrow>
   c \<le> 12 \<Longrightarrow> selected (mang_buffer A) p \<Longrightarrow> countries_raster A p = Some k \<Longrightarrow>
   mangarea A p = Some 1 \<and> nomang A p = Some 1 \<and>
   class2015_fix6 A p = Some 7 \<and> class2015_fix7 A p = Some 8"
  by (simp add: mangarea_is_1 nomang_is_1 class2015_fix6_px class2015_fix7_px)


text \<open>A mangrove pixel at 35 m in country 2.\<close>

theorem mangrove_boundary_35_witness:
  "mangroves (sample_assets\<lparr>dem := (\<lambda>p. Some 35), mangroves := (\<lambda>p. Some 1)\<rparr>) 0 = Some 1 \<and>
   dem (sample_assets\<lparr>dem := (\<lambda>p. Some 35), mangroves := (\<lambda>p. Some 1)\<rparr>) 0 = Some 35 \<and>
   class2015_fix5 (sample_assets\<lparr>dem := (\<lambda>p. Some 35), mangroves := (\<lambda>p. Some 1)\<rparr>) 0 = Some 1 \<and>
   (1::int) \<le> 12 \<and>
   selected (mang_buffer (sample_assets\<lparr>dem := (\<lambda>p. Some 35), mangroves := (\<lambda>p. Some 1)\<rparr>)) 0 \<and>
   countries_raster (sample_assets\<lparr>dem := (\<lambda>p. Some 35), mangroves := (\<lambda>p. Some 1)\<rparr>) 0
     = Some 2 \<and>
   class2015_fix6 (sample_assets\<lparr>dem := (\<lambda>p. Some 35), mangroves := (\<lambda>p. Some 1)\<rparr>) 0 = Some 7 \<and>
   class2015_fix7 (sample_assets\<lparr>dem := (\<lambda>p. Some 35), mangroves := (\<lambda>p. Some 1)\<rparr>) 0 = Some 8"
proof -
  let ?A = "sample_assets\<lparr>dem := (\<lambda>p. Some 35), mangroves := (\<lambda>p. Some 1)\<rparr>"
  have h1: "mangroves ?A 0 = Some 1" by simp
  have h2: "dem ?A 0 = Some 35" by simp
  have h3: "class2015_fix5 ?A 0 = Some 1" by (simp add: eval_fix5)
  have h4: "(1::int) \<le> 12" by simp
  have h5: "selected (mang_buffer ?A) 0"
    by (rule own_pixel_buffer) (simp_all add: sample_assets_def)
  have h6: "countries_raster ?A 0 = Some 2" by (simp add: sample_assets_def)
  from mangrove_boundary_35 [OF h1 h2 h3 h4 h5 h6] h1 h2 h3 h4 h5 h6 show ?thesis by blast
qed

text \<open>
  Claim C10 as stated fails where the country-code raster is masked: the \<^verbatim>\<open>Or\<close> is
  masked there, \<^verbatim>\<open>unmask\<close> makes \<open>nomang\<close> 0, and the pixel ends stage 6 as
  mangrove (7).
\<close>

theorem mangrove_boundary_35_counterexample:
  "mangroves (sample_assets\<lparr>dem := (\<lambda>p. Some 35), mangroves := (\<lambda>p. Some 1),
       countries_raster := (\<lambda>p. None)\<rparr>) 0 = Some 1 \<and>
   dem (sample_assets\<lparr>dem := (\<lambda>p. Some 35), mangroves := (\<lambda>p. Some 1),
       countries_raster := (\<lambda>p. None)\<rparr>) 0 = Some 35 \<and>
   class2015_fix5 (sample_assets\<lparr>dem := (\<lambda>p. Some 35), mangroves := (\<lambda>p. Some 1),
       countries_raster := (\<lambda>p. None)\<rparr>) 0 = Some 1 \<and>
   selected (mang_buffer (sample_assets\<lparr>dem := (\<lambda>p. Some 35), mangroves := (\<lambda>p. Some 1),
       countries_raster := (\<lambda>p. None)\<rparr>)) 0 \<and>
   nomang (sample_assets\<lparr>dem := (\<lambda>p. Some 35), mangroves := (\<lambda>p. Some 1),
       countries_raster := (\<lambda>p. None)\<rparr>) 0 = Some 0 \<and>
   class2015_fix7 (sample_assets\<lparr>dem := (\<lambda>p. Some 35), mangroves := (\<lambda>p. Some 1),
       countries_raster := (\<lambda>p. None)\<rparr>) 0 = Some 7"
proof -
  let ?A = "sample_assets\<lparr>dem := (\<lambda>p. Some 35), mangroves := (\<lambda>p. Some 1),
       countries_raster := (\<lambda>p. None)\<rparr>"
  have h1: "mangroves ?A 0 = Some 1" by simp
  have h2: "dem ?A 0 = Some 35" by simp
  have h3: "class2015_fix5 ?A 0 = Some 1" by (simp add: eval_fix5)
  have h5: "selected (mang_buffer ?A) 0"
    by (rule own_pixel_buffer) (simp_all add: sample_assets_def)
  have n: "nomang ?A 0 = Some 0"
    by (simp add: nomang_def ee_unmask_def ee_Or_def binop_def ee_gte_def ee_eq_def
        ee_constant_def)
  have "class2015_fix7 ?A 0 = Some 7"
    using n h3 h5 by (simp add: class2015_fix7_px mangarea_is_1 sample_assets_def)
  with h1 h2 h3 h5 n show ?thesis by blast
qed

section \<open>Stage 7: the hydrology corrector\<close>

lemma permanent_is_1: "(permanent A p = Some 1) = (aoi A p \<and> ee_mosaic (water A) p = Some 3)"
  by (auto simp add: permanent_def water_area_def unmask_is_1 eq_const_is_1 ee_clip_def)

lemma class2015_fixwater1_None: "(class2015_fixwater1 A p = None) = (\<not> aoi A p)"
  by (simp add: class2015_fixwater1_def ee_where_None class2015_fix7_None)

lemma seasonal_is_1: "(seasonal A p = Some 1) = (aoi A p \<and> ee_mosaic (water A) p = Some 2)"
  by (auto simp add: seasonal_def water_area_def unmask_is_1 eq_const_is_1 ee_clip_def)

lemma prairie_is_1:
  "(prairie A p = Some 1) =
     (seasonal A p = Some 1 \<and> (\<exists>c. class2015_fix7 A p = Some c \<and> c \<noteq> 14 \<and> c \<noteq> 18))"
  by (auto simp add: prairie_def And_is_1 selected_And selected_eq_const selected_neq_const)

lemma class2015_fixwater_px:
  "class2015_fixwater A p =
     (case class2015_fix7 A p of None \<Rightarrow> Some 0
      | Some c \<Rightarrow>
          if permanent A p = Some 1 then Some 18
          else if seasonal A p = Some 1 \<and> c \<noteq> 14 \<and> c \<noteq> 18 then Some 14
          else Some c)"
  by (auto simp add: class2015_fixwater_def class2015_fixwater1_def ee_unmask_def ee_where_const
      selected_eq_const prairie_is_1 split: option.splits)

text \<open>
  Claim C4. Hydrology Corrector: at every pixel where the permanent-water layer
  \<open>permanent\<close> is 1, the stage-7 output \<open>class2015_fixwater\<close> is water (18), whatever
  the seasonal flag and the class before the stage: the permanent overwrite runs after
  the seasonal one and wins. (\<open>permanent\<close> is 1 only inside the study area, where the
  class raster is valid, so the overwrite always lands.)
\<close>

theorem permanent_water_dominates:
  "permanent A p = Some 1 \<Longrightarrow> class2015_fixwater A p = Some 18"
proof -
  assume perm: "permanent A p = Some 1"
  then have "aoi A p" by (simp add: permanent_is_1)
  then obtain c where c: "class2015_fixwater1 A p = Some c"
    using class2015_fixwater1_None [of A p] by auto
  from perm have "selected (ee_eq (permanent A) (ee_constant 1)) p"
    by (simp add: selected_eq_const)
  with c show ?thesis
    by (simp add: class2015_fixwater_def ee_unmask_def ee_where_const)
qed

text \<open>A water collection whose valid observation at the pixel is permanent (3).\<close>

theorem permanent_water_dominates_witness:
  "permanent (sample_assets\<lparr>water := [\<lambda>p. Some 3, \<lambda>p. None]\<rparr>) 0 = Some 1 \<and>
   class2015_fixwater (sample_assets\<lparr>water := [\<lambda>p. Some 3, \<lambda>p. None]\<rparr>) 0 = Some 18"
proof -
  let ?A = "sample_assets\<lparr>water := [\<lambda>p. Some 3, \<lambda>p. None]\<rparr>"
  have h: "permanent ?A 0 = Some 1"
    by (simp add: permanent_is_1 ee_mosaic_def sample_assets_def)
  from permanent_water_dominates [OF h] h show ?thesis by blast
qed

section \<open>Stage 8: the regional override and mosaic\<close>

lemma class2015_fixwater_not_None: "class2015_fixwater A p \<noteq> None"
  by (simp add: class2015_fixwater_def ee_unmask_None)

lemma in_gabon:
  "selected (ee_neq (not_gabon A) (ee_constant 1)) p = (countries_raster A p = Some 6)"
  by (auto simp add: selected_neq_const not_gabon_def ee_neq_const b2i_def)

lemma holes_is_1:
  "(holes A p = Some 1) = (countries_raster A p = Some 6 \<and> gabon_os A p = Some 128)"
  by (simp add: holes_def unmask_is_1 And_is_1 in_gabon selected_eq_const)

lemma class2015_clean_px:
  "class2015_clean A p =
     (if countries_raster A p = Some 6
      then (case gabon_os A p of None \<Rightarrow> class2015_fixwater A p
            | Some g \<Rightarrow> if g = 128 then class2015_fixwater A p else Some g)
      else class2015_fixwater A p)"
proof -
  obtain r where r: "class2015_fixwater A p = Some r"
    using class2015_fixwater_not_None [of A p] by auto
  show ?thesis
    by (simp add: class2015_clean_def class2015_wgab_def ee_where_def selected_eq_const
        holes_is_1 in_gabon r split: option.splits)
qed

lemma island_present:
  "selected (ee_gt (anno_area A) (ee_constant 0)) p =
     (\<exists>a. annobon_cafi_2014 A p = Some a \<and> 0 < a)"
  by (auto simp add: selected_gt_const anno_area_def annobon_def ee_unmask_def ee_gt_const b2i_def
      split: option.splits)

lemma class2015_clean_not_None: "class2015_clean A p \<noteq> None"
  by (simp add: class2015_clean_def class2015_wgab_def ee_where_None class2015_fixwater_not_None)

lemma anno_area_positive:
  "selected (ee_gt (anno_area A) (ee_constant 0)) p = (\<exists>i. anno_area A p = Some i \<and> 0 < i)"
  by (simp add: selected_gt_const)

lemma class2015_final_px:
  "class2015_final A p =
     (if (\<exists>i. anno_area A p = Some i \<and> 0 < i) then annobon A p
      else if countries_raster A p = Some 6
      then (case gabon_os A p of None \<Rightarrow> class2015_fixwater A p
            | Some g \<Rightarrow> if g = 128 then class2015_fixwater A p else Some g)
      else class2015_fixwater A p)"
proof -
  obtain c where c: "class2015_clean A p = Some c"
    using class2015_clean_not_None [of A p] by auto
  obtain a where a: "annobon A p = Some a"
    by (simp add: annobon_def ee_unmask_px)
  from c have fin: "class2015_final A p =
      (if selected (ee_gt (anno_area A) (ee_constant 0)) p then annobon A p
       else class2015_clean A p)"
    by (simp add: class2015_final_def ee_where_def a)
  show ?thesis
    unfolding fin class2015_clean_px anno_area_positive by (rule refl)
qed

text \<open>
  Claim C3. Regional Override and Mosaic: at every pixel the stage-8 output
  \<open>class2015_final\<close> is the regional classification \<open>class2015_fixwater\<close> outside the
  footprint of country 6; inside it, it is the national dataset \<open>gabon_os\<close>, except where
  that carries its no-data sentinel 128 (or is masked), where it is the regional value;
  and wherever the island's presence indicator \<open>anno_area\<close> is positive the island's
  value \<open>annobon\<close> overrides all of that.
\<close>

theorem class2015_final_mosaic:
  "class2015_final A p =
     (if (\<exists>i. anno_area A p = Some i \<and> 0 < i) then annobon A p
      else if countries_raster A p = Some 6
      then (case gabon_os A p of None \<Rightarrow> class2015_fixwater A p
            | Some g \<Rightarrow> if g = 128 then class2015_fixwater A p else Some g)
      else class2015_fixwater A p)"
  by (rule class2015_final_px)

section \<open>Stage 9: the forest / non-forest derivation\<close>

lemma car_cam_is_1:
  "(car_cam A p = Some 1) = (countries_raster A p = Some 2 \<or> countries_raster A p = Some 3)"
  by (auto simp add: car_cam_def Or_is_1 ee_eq_const selected_eq_const)

lemma fnf_12: "aoi A p \<Longrightarrow> class2015_final A p = Some 12 \<Longrightarrow> fnf A p = Some 2"
  by (simp add: fnf_def ee_clip_def ee_remap_def)

lemmas eval_final = eval_fix5 class2015_final_px class2015_fix7_px class2015_fixwater_px permanent_is_1
  seasonal_is_1 ee_mosaic_def anno_area_def annobon_def ee_gt_const b2i_def

text \<open>
  Claim C7, as amended. Country override: at every pixel inside the study area and inside
  the country-boundary clip whose country code is 2 or 3 and whose final class is shrub
  savanna (12), the default remap gives non-forest (2) and the 3-class output
  \<open>fnf_final\<close> is forest (1); at every pixel outside either clip the 3-class output is
  no-data.
\<close>

theorem shrub_savanna_override:
  "(aoi A p \<and> lsib A p \<and>
    (countries_raster A p = Some 2 \<or> countries_raster A p = Some 3) \<and>
    class2015_final A p = Some 12 \<longrightarrow>
      fnf A p = Some 2 \<and> fnf_final A p = Some 1) \<and>
   (\<not> aoi A p \<or> \<not> lsib A p \<longrightarrow> fnf_final A p = None)"
proof (rule conjI)
  show "aoi A p \<and> lsib A p \<and>
      (countries_raster A p = Some 2 \<or> countries_raster A p = Some 3) \<and>
      class2015_final A p = Some 12 \<longrightarrow>
        fnf A p = Some 2 \<and> fnf_final A p = Some 1"
  proof (rule impI)
    assume inside: "aoi A p \<and> lsib A p \<and>
      (countries_raster A p = Some 2 \<or> countries_raster A p = Some 3) \<and>
      class2015_final A p = Some 12"
    then have f: "fnf A p = Some 2"
      by (simp add: fnf_12)
    from inside have "selected (ee_eq (caf_sav A) (ee_constant 1)) p"
      by (simp add: caf_sav_def selected_eq_const And_is_1 car_cam_is_1)
    with inside f have "fnf_final A p = Some 1"
      by (simp add: fnf_final_def ee_clip_def ee_where_const)
    with f show "fnf A p = Some 2 \<and> fnf_final A p = Some 1" by simp
  qed
next
  show "\<not> aoi A p \<or> \<not> lsib A p \<longrightarrow> fnf_final A p = None"
    by (auto simp add: fnf_final_def fnf_def ee_clip_def ee_where_None)
qed

text \<open>Raw class 9 is shrub savanna (12) and the sample stack lies in country 2; the same
  stack with an empty boundary, or an empty study area, has no 3-class output.\<close>

theorem shrub_savanna_override_witness:
  "aoi (sample_assets\<lparr>class2015 := (\<lambda>p. Some 9)\<rparr>) 0 \<and>
   lsib (sample_assets\<lparr>class2015 := (\<lambda>p. Some 9)\<rparr>) 0 \<and>
   countries_raster (sample_assets\<lparr>class2015 := (\<lambda>p. Some 9)\<rparr>) 0 = Some 2 \<and>
   class2015_final (sample_assets\<lparr>class2015 := (\<lambda>p. Some 9)\<rparr>) 0 = Some 12 \<and>
   fnf (sample_assets\<lparr>class2015 := (\<lambda>p. Some 9)\<rparr>) 0 = Some 2 \<and>
   fnf_final (sample_assets\<lparr>class2015 := (\<lambda>p. Some 9)\<rparr>) 0 = Some 1 \<and>
   \<not> lsib (sample_assets\<lparr>lsib := (\<lambda>p. False)\<rparr>) 0 \<and>
   fnf_final (sample_assets\<lparr>lsib := (\<lambda>p. False)\<rparr>) 0 = None \<and>
   \<not> aoi (sample_assets\<lparr>aoi := (\<lambda>p. False)\<rparr>) 0 \<and>
   fnf_final (sample_assets\<lparr>aoi := (\<lambda>p. False)\<rparr>) 0 = None"
proof -
  let ?A = "sample_assets\<lparr>class2015 := (\<lambda>p. Some 9)\<rparr>"
  let ?B = "sample_assets\<lparr>lsib := (\<lambda>p. False)\<rparr>"
  let ?C = "sample_assets\<lparr>aoi := (\<lambda>p. False)\<rparr>"
  have h1: "aoi ?A 0" by (simp add: sample_assets_def)
  have h2: "lsib ?A 0" by (simp add: sample_assets_def)
  have k: "countries_raster ?A 0 = Some 2" by (simp add: sample_assets_def)
  have h4: "class2015_final ?A 0 = Some 12"
    by (simp add: eval_final)
  from h1 h2 k h4 have hyp: "aoi ?A 0 \<and> lsib ?A 0 \<and>
      (countries_raster ?A 0 = Some 2 \<or> countries_raster ?A 0 = Some 3) \<and>
      class2015_final ?A 0 = Some 12"
    by blast
  have a: "fnf ?A 0 = Some 2 \<and> fnf_final ?A 0 = Some 1"
    using shrub_savanna_override [of ?A 0, THEN conjunct1, rule_format, OF hyp] .
  have b1: "\<not> lsib ?B 0" by simp
  then have "\<not> aoi ?B 0 \<or> \<not> lsib ?B 0" ..
  then have b2: "fnf_final ?B 0 = None"
    by (rule shrub_savanna_override [of ?B 0, THEN conjunct2, rule_format])
  have c1: "\<not> aoi ?C 0" by simp
  then have "\<not> aoi ?C 0 \<or> \<not> lsib ?C 0" ..
  then have c2: "fnf_final ?C 0 = None"
    by (rule shrub_savanna_override [of ?C 0, THEN conjunct2, rule_format])
  from h1 h2 k h4 a b1 b2 c1 c2 show ?thesis by blast
qed

text \<open>
  Claim C7 as stated fails outside the boundary clip: a shrub-savanna pixel of country 2
  that the boundary \<open>lsib\<close> does not cover is masked in \<open>fnf_final\<close>, not forest (1).
\<close>

theorem shrub_savanna_override_counterexample:
  "countries_raster (sample_assets\<lparr>class2015 := (\<lambda>p. Some 9), lsib := (\<lambda>p. False)\<rparr>) 0
     = Some 2 \<and>
   class2015_final (sample_assets\<lparr>class2015 := (\<lambda>p. Some 9), lsib := (\<lambda>p. False)\<rparr>) 0
     = Some 12 \<and>
   fnf_final (sample_assets\<lparr>class2015 := (\<lambda>p. Some 9), lsib := (\<lambda>p. False)\<rparr>) 0 = None"
proof -
  let ?A = "sample_assets\<lparr>class2015 := (\<lambda>p. Some 9), lsib := (\<lambda>p. False)\<rparr>"
  have a1: "countries_raster ?A 0 = Some 2" by (simp add: sample_assets_def)
  have a2: "class2015_final ?A 0 = Some 12"
    by (simp add: eval_final)
  have a3: "fnf_final ?A 0 = None"
    by (simp add: fnf_final_def ee_clip_def)
  from a1 a2 a3 show ?thesis by blast
qed

end
